theory Spec2Isabelle
  imports Main "HOL-Library.Word"
begin

section \<open>The HTTP request wrapper of \<^verbatim>\<open>http_client.hpp\<close>\<close>

text \<open>
  The class \<^verbatim>\<open>net::HttpRequest\<close> wraps one libcurl easy handle. Its methods are
  modelled as functions on a record of the data members; the easy handle is a record of
  the options that \<^verbatim>\<open>curl_easy_setopt\<close> stores, and the transfer engine
  (\<^verbatim>\<open>curl_easy_perform\<close>, \<^verbatim>\<open>curl_easy_strerror\<close>, \<^verbatim>\<open>curl_easy_init\<close>) is a
  parameter of every function that calls it. A \<^verbatim>\<open>throw\<close> is the left summand of the
  result.

  Member names end in an underscore in the source (\<^verbatim>\<open>url_\<close>); such names are not
  accepted here, so the members carry the suffix \<open>_m\<close> (\<open>url_m\<close>).
\<close>

subsection \<open>Strings and integers at the C boundary\<close>

definition NUL :: char where
  "NUL = CHR 0x00"

text \<open>
  \<^verbatim>\<open>std::string::c_str()\<close> hands libcurl a pointer to a NUL-terminated array; libcurl
  reads it as a C string, that is up to the first NUL byte.
\<close>

definition c_str :: "string \<Rightarrow> string" where
  "c_str s = takeWhile (\<lambda>c. c \<noteq> NUL) s"

text \<open>
  \<^verbatim>\<open>static_cast<long>(body_.size())\<close>: a \<^verbatim>\<open>size_t\<close> converted to a 64-bit
  \<^verbatim>\<open>long\<close> (two's complement).
\<close>

definition static_cast_long :: "nat \<Rightarrow> int" where
  "static_cast_long n = sint (word_of_nat n :: 64 word)"

subsection \<open>The easy handle\<close>

text \<open>
  libcurl is not part of the repository. The handle keeps what the wrapper passes to
  \<^verbatim>\<open>curl_easy_setopt\<close>, option by option. The request kind \<open>o_method\<close> follows
  libcurl's documentation of the options the wrapper uses: \<^verbatim>\<open>CURLOPT_HTTPGET\<close> with a
  non-zero argument switches the handle back to GET, \<^verbatim>\<open>CURLOPT_POST\<close> with a non-zero
  argument and \<^verbatim>\<open>CURLOPT_POSTFIELDS\<close> switch it to POST, and
  \<^verbatim>\<open>CURLOPT_CUSTOMREQUEST\<close> replaces the method keyword only, leaving the request
  kind as it is. The wrapper ignores the code \<^verbatim>\<open>curl_easy_setopt\<close> returns, so the
  model returns the handle only.

  \<^verbatim>\<open>CURLOPT_POSTFIELDS\<close> keeps the pointer \<^verbatim>\<open>body_.c_str()\<close>, not a copy.
  \<open>o_postfields\<close> holds the bytes behind that pointer when the option is set, which
  are the bytes the engine reads in the same verb call. On a later call that leaves the
  option in place, the code reads whatever the buffer of \<^verbatim>\<open>body_\<close> then holds, with
  the size set earlier; the statements below read \<open>o_postfields\<close> only in the call
  that set it or with no \<open>set_body\<close> since.
\<close>

type_synonym addr = nat

datatype httpreq = HTTPREQ_GET | HTTPREQ_POST

datatype callback = write_body_cb_fn | write_header_cb_fn

record CURL =
  o_url :: "string option"
  o_timeout_ms :: int
  o_followlocation :: int
  o_useragent :: "string option"
  o_errorbuffer :: "addr option"
  o_writefunction :: "callback option"
  o_writedata :: "addr option"
  o_headerfunction :: "callback option"
  o_headerdata :: "addr option"
  o_method :: httpreq
  o_customrequest :: "string option"
  o_postfields :: "string option"
  o_postfieldsize :: int
  o_httpheader :: "string list option"

datatype curlopt =
    CURLOPT_URL string
  | CURLOPT_TIMEOUT_MS int
  | CURLOPT_FOLLOWLOCATION int
  | CURLOPT_USERAGENT string
  | CURLOPT_ERRORBUFFER addr
  | CURLOPT_WRITEFUNCTION callback
  | CURLOPT_WRITEDATA addr
  | CURLOPT_HEADERFUNCTION callback
  | CURLOPT_HEADERDATA addr
  | CURLOPT_HTTPGET int
  | CURLOPT_CUSTOMREQUEST string
  | CURLOPT_POST int
  | CURLOPT_POSTFIELDS string
  | CURLOPT_POSTFIELDSIZE int
  | CURLOPT_HTTPHEADER "string list"

fun curl_easy_setopt :: "CURL \<Rightarrow> curlopt \<Rightarrow> CURL" where
  "curl_easy_setopt e (CURLOPT_URL u) = e\<lparr>o_url := Some u\<rparr>"
| "curl_easy_setopt e (CURLOPT_TIMEOUT_MS ms) = e\<lparr>o_timeout_ms := ms\<rparr>"
| "curl_easy_setopt e (CURLOPT_FOLLOWLOCATION n) = e\<lparr>o_followlocation := n\<rparr>"
| "curl_easy_setopt e (CURLOPT_USERAGENT ua) = e\<lparr>o_useragent := Some ua\<rparr>"
| "curl_easy_setopt e (CURLOPT_ERRORBUFFER p) = e\<lparr>o_errorbuffer := Some p\<rparr>"
| "curl_easy_setopt e (CURLOPT_WRITEFUNCTION f) = e\<lparr>o_writefunction := Some f\<rparr>"
| "curl_easy_setopt e (CURLOPT_WRITEDATA p) = e\<lparr>o_writedata := Some p\<rparr>"
| "curl_easy_setopt e (CURLOPT_HEADERFUNCTION f) = e\<lparr>o_headerfunction := Some f\<rparr>"
| "curl_easy_setopt e (CURLOPT_HEADERDATA p) = e\<lparr>o_headerdata := Some p\<rparr>"
| "curl_easy_setopt e (CURLOPT_HTTPGET n) =
     (if n \<noteq> 0 then e\<lparr>o_method := HTTPREQ_GET\<rparr> else e)"
| "curl_easy_setopt e (CURLOPT_CUSTOMREQUEST m) = e\<lparr>o_customrequest := Some m\<rparr>"
| "curl_easy_setopt e (CURLOPT_POST n) =
     (if n \<noteq> 0 then e\<lparr>o_method := HTTPREQ_POST\<rparr> else e\<lparr>o_method := HTTPREQ_GET\<rparr>)"
| "curl_easy_setopt e (CURLOPT_POSTFIELDS p) =
     e\<lparr>o_postfields := Some p, o_method := HTTPREQ_POST\<rparr>"
| "curl_easy_setopt e (CURLOPT_POSTFIELDSIZE n) = e\<lparr>o_postfieldsize := n\<rparr>"
| "curl_easy_setopt e (CURLOPT_HTTPHEADER hs) = e\<lparr>o_httpheader := Some hs\<rparr>"

text \<open>A handle as \<^verbatim>\<open>curl_easy_init\<close> returns it: nothing set, request kind GET.\<close>

definition easy_defaults :: CURL where
  "easy_defaults =
     \<lparr>o_url = None, o_timeout_ms = 0, o_followlocation = 0, o_useragent = None,
      o_errorbuffer = None, o_writefunction = None, o_writedata = None,
      o_headerfunction = None, o_headerdata = None, o_method = HTTPREQ_GET,
      o_customrequest = None, o_postfields = None, o_postfieldsize = - 1,
      o_httpheader = None\<rparr>"

text \<open>
  What a handle puts on the wire, as far as the wrapper decides it: the method keyword
  and the payload. A payload goes out only for request kind POST; it is the
  \<^verbatim>\<open>CURLOPT_POSTFIELDS\<close> data with the \<^verbatim>\<open>CURLOPT_POSTFIELDSIZE\<close> byte count.
\<close>

definition outgoing_method :: "CURL \<Rightarrow> string" where
  "outgoing_method e =
     (case o_customrequest e of
        Some m \<Rightarrow> m
      | None \<Rightarrow> (case o_method e of HTTPREQ_GET \<Rightarrow> ''GET'' | HTTPREQ_POST \<Rightarrow> ''POST''))"

definition outgoing_body :: "CURL \<Rightarrow> (string \<times> int) option" where
  "outgoing_body e =
     (case o_method e of
        HTTPREQ_GET \<Rightarrow> None
      | HTTPREQ_POST \<Rightarrow>
          (case o_postfields e of None \<Rightarrow> None | Some b \<Rightarrow> Some (b, o_postfieldsize e)))"

subsection \<open>The transfer engine\<close>

text \<open>
  One run of \<^verbatim>\<open>curl_easy_perform\<close>: the header lines and body chunks it delivers to
  the two callbacks, in order; its \<^verbatim>\<open>CURLcode\<close>; the message it writes into the error
  buffer, if it writes one; and the response code \<^verbatim>\<open>curl_easy_getinfo\<close> reports
  afterwards.
\<close>

datatype event = HeaderLine string | BodyChunk string

record transfer =
  delivered :: "event list"
  code :: nat
  errtext :: "string option"
  response_code :: int

record libcurl =
  curl_easy_init :: "CURL option"
  curl_easy_perform :: "CURL \<Rightarrow> transfer"
  curl_easy_strerror :: "nat \<Rightarrow> string"

definition CURLE_OK :: nat where
  "CURLE_OK = 0"

definition CURL_ERROR_SIZE :: nat where
  "CURL_ERROR_SIZE = 256"

subsection \<open>\<^verbatim>\<open>HttpResponse\<close> and \<^verbatim>\<open>HttpRequest\<close>\<close>

record HttpResponse =
  status :: int
  body :: string
  headers :: "string list"

definition HttpResponse_init :: HttpResponse where
  "HttpResponse_init = \<lparr>status = 0, body = [], headers = []\<rparr>"

text \<open>
  \<open>headers_m\<close> is the \<^verbatim>\<open>curl_slist\<close>: the null pointer is the empty list.
  \<open>errbuf_m\<close> is the content of \<^verbatim>\<open>errbuf_storage_\<close> read as a C string, the only way
  the class reads it; \<^verbatim>\<open>errbuf_[0] = '\0'\<close> makes it empty.
\<close>

record HttpRequest =
  easy_m :: CURL
  headers_m :: "string list"
  url_m :: string
  user_agent_m :: string
  body_m :: string
  response_m :: HttpResponse
  errbuf_m :: string

datatype error = runtime_error string

subsubsection \<open>Configuration\<close>

definition set_url :: "string \<Rightarrow> HttpRequest \<Rightarrow> HttpRequest" where
  "set_url url s =
     (let s1 = s\<lparr>url_m := url\<rparr>
      in s1\<lparr>easy_m := curl_easy_setopt (easy_m s1) (CURLOPT_URL (c_str (url_m s1)))\<rparr>)"

definition set_timeout_ms :: "int \<Rightarrow> HttpRequest \<Rightarrow> HttpRequest" where
  "set_timeout_ms ms s = s\<lparr>easy_m := curl_easy_setopt (easy_m s) (CURLOPT_TIMEOUT_MS ms)\<rparr>"

definition set_follow_redirects :: "bool \<Rightarrow> HttpRequest \<Rightarrow> HttpRequest" where
  "set_follow_redirects yes s =
     s\<lparr>easy_m := curl_easy_setopt (easy_m s) (CURLOPT_FOLLOWLOCATION (if yes then 1 else 0))\<rparr>"

definition set_user_agent :: "string \<Rightarrow> HttpRequest \<Rightarrow> HttpRequest" where
  "set_user_agent ua s =
     (let s1 = s\<lparr>user_agent_m := ua\<rparr>
      in s1\<lparr>easy_m := curl_easy_setopt (easy_m s1) (CURLOPT_USERAGENT (c_str (user_agent_m s1)))\<rparr>)"

text \<open>
  \<^verbatim>\<open>curl_slist_append\<close> copies the C string it is given to the end of the list.
  Running out of memory there is not modelled.
\<close>

definition curl_slist_append :: "string list \<Rightarrow> string \<Rightarrow> string list" where
  "curl_slist_append l d = l @ [d]"

definition add_header :: "string \<Rightarrow> HttpRequest \<Rightarrow> HttpRequest" where
  "add_header h s = s\<lparr>headers_m := curl_slist_append (headers_m s) (c_str h)\<rparr>"

definition set_body :: "string \<Rightarrow> string \<Rightarrow> HttpRequest \<Rightarrow> HttpRequest" where
  "set_body b content_type s =
     (let s1 = s\<lparr>body_m := b\<rparr>
      in if content_type \<noteq> [] then add_header (''Content-Type: '' @ content_type) s1 else s1)"

subsubsection \<open>Construction\<close>

text \<open>
  \<open>this\<close> is the address of the object under construction; the error buffer and both
  callbacks are registered with it. The members start empty.
\<close>

definition HttpRequest_members :: "CURL \<Rightarrow> HttpRequest" where
  "HttpRequest_members e =
     \<lparr>easy_m = e, headers_m = [], url_m = [], user_agent_m = [], body_m = [],
      response_m = HttpResponse_init, errbuf_m = []\<rparr>"

definition HttpRequest_defaults :: "addr \<Rightarrow> HttpRequest \<Rightarrow> HttpRequest" where
  "HttpRequest_defaults this s0 =
     (let s1 = set_follow_redirects True s0;
          s2 = set_timeout_ms 0 s1;
          s3 = set_user_agent ''net::HttpRequest/1.0'' s2;
          e4 = curl_easy_setopt (easy_m s3) (CURLOPT_ERRORBUFFER this);
          e5 = curl_easy_setopt e4 (CURLOPT_WRITEFUNCTION write_body_cb_fn);
          e6 = curl_easy_setopt e5 (CURLOPT_WRITEDATA this);
          e7 = curl_easy_setopt e6 (CURLOPT_HEADERFUNCTION write_header_cb_fn);
          e8 = curl_easy_setopt e7 (CURLOPT_HEADERDATA this)
      in s3\<lparr>easy_m := e8\<rparr>)"

definition HttpRequest_ctor :: "libcurl \<Rightarrow> addr \<Rightarrow> error + HttpRequest" where
  "HttpRequest_ctor lib this =
     (case curl_easy_init lib of
        None \<Rightarrow> Inl (runtime_error ''curl_easy_init failed'')
      | Some e \<Rightarrow> Inr (HttpRequest_defaults this (HttpRequest_members e)))"

subsubsection \<open>Callbacks and execution\<close>

text \<open>
  A callback receives \<^verbatim>\<open>sz * nmemb\<close> bytes, here the chunk, and returns the number of
  bytes it took.
\<close>

definition write_body_cb :: "string \<Rightarrow> HttpRequest \<Rightarrow> nat \<times> HttpRequest" where
  "write_body_cb chunk self =
     (length chunk,
      self\<lparr>response_m := (response_m self)\<lparr>body := body (response_m self) @ chunk\<rparr>\<rparr>)"

definition write_header_cb :: "string \<Rightarrow> HttpRequest \<Rightarrow> nat \<times> HttpRequest" where
  "write_header_cb chunk self =
     (length chunk,
      self\<lparr>response_m := (response_m self)\<lparr>headers := headers (response_m self) @ [chunk]\<rparr>\<rparr>)"

text \<open>
  The engine's side of one run, seen from the object: each delivered event goes through
  its callback, and a message, if any, is written into the error buffer as a C string of
  at most \<open>CURL_ERROR_SIZE - 1\<close> bytes.
\<close>

fun deliver :: "event list \<Rightarrow> HttpRequest \<Rightarrow> HttpRequest" where
  "deliver [] s = s"
| "deliver (HeaderLine l # es) s = deliver es (snd (write_header_cb l s))"
| "deliver (BodyChunk c # es) s = deliver es (snd (write_body_cb c s))"

definition write_errbuf :: "string option \<Rightarrow> HttpRequest \<Rightarrow> HttpRequest" where
  "write_errbuf m s =
     (case m of None \<Rightarrow> s | Some t \<Rightarrow> s\<lparr>errbuf_m := take (CURL_ERROR_SIZE - 1) (c_str t)\<rparr>)"

text \<open>
  The outcome of a verb: the handle as \<^verbatim>\<open>curl_easy_perform\<close> received it, what the
  caller gets (the exception or the response), and the object afterwards.
\<close>

record exchange =
  sent :: CURL
  result :: "error + HttpResponse"
  after :: HttpRequest

definition perform :: "libcurl \<Rightarrow> HttpRequest \<Rightarrow> exchange" where
  "perform lib s =
     (let s1 = (if headers_m s \<noteq> []
                then s\<lparr>easy_m := curl_easy_setopt (easy_m s) (CURLOPT_HTTPHEADER (headers_m s))\<rparr>
                else s);
          t = curl_easy_perform lib (easy_m s1);
          s2 = write_errbuf (errtext t) (deliver (delivered t) s1)
      in if code t \<noteq> CURLE_OK
         then \<lparr>sent = easy_m s1,
               result = Inl (runtime_error (''curl_easy_perform: '' @
                  (if errbuf_m s2 \<noteq> [] then errbuf_m s2 else curl_easy_strerror lib (code t)))),
               after = s2\<rparr>
         else (let s3 = s2\<lparr>response_m := (response_m s2)\<lparr>status := response_code t\<rparr>\<rparr>
               in \<lparr>sent = easy_m s1, result = Inr (response_m s3), after = s3\<rparr>))"

definition reset_buffers :: "HttpRequest \<Rightarrow> HttpRequest" where
  "reset_buffers s = s\<lparr>response_m := HttpResponse_init, errbuf_m := []\<rparr>"

definition get :: "libcurl \<Rightarrow> HttpRequest \<Rightarrow> exchange" where
  "get lib s =
     (let s1 = reset_buffers s;
          s2 = s1\<lparr>easy_m := curl_easy_setopt (easy_m s1) (CURLOPT_HTTPGET 1)\<rparr>
      in perform lib s2)"

definition del :: "libcurl \<Rightarrow> HttpRequest \<Rightarrow> exchange" where
  "del lib s =
     (let s1 = reset_buffers s;
          s2 = s1\<lparr>easy_m := curl_easy_setopt (easy_m s1) (CURLOPT_CUSTOMREQUEST ''DELETE'')\<rparr>
      in perform lib s2)"

definition post :: "libcurl \<Rightarrow> HttpRequest \<Rightarrow> exchange" where
  "post lib s =
     (let s1 = reset_buffers s;
          e2 = curl_easy_setopt (easy_m s1) (CURLOPT_POST 1);
          e3 = curl_easy_setopt e2 (CURLOPT_POSTFIELDS (body_m s1));
          e4 = curl_easy_setopt e3 (CURLOPT_POSTFIELDSIZE (static_cast_long (length (body_m s1))))
      in perform lib (s1\<lparr>easy_m := e4\<rparr>))"

definition put :: "libcurl \<Rightarrow> HttpRequest \<Rightarrow> exchange" where
  "put lib s =
     (let s1 = reset_buffers s;
          e2 = curl_easy_setopt (easy_m s1) (CURLOPT_CUSTOMREQUEST ''PUT'');
          e3 = curl_easy_setopt e2 (CURLOPT_POSTFIELDS (body_m s1));
          e4 = curl_easy_setopt e3 (CURLOPT_POSTFIELDSIZE (static_cast_long (length (body_m s1))))
      in perform lib (s1\<lparr>easy_m := e4\<rparr>))"

subsection \<open>Call sequences\<close>

text \<open>
  The four verbs and the six setters as data, so that statements can range over every
  verb and over every sequence of calls on one object. An exception thrown by a verb
  leaves the object to the caller, who may go on using it.
\<close>

datatype verb = Get | Del | Post | Put

fun invoke :: "verb \<Rightarrow> libcurl \<Rightarrow> HttpRequest \<Rightarrow> exchange" where
  "invoke Get lib s = get lib s"
| "invoke Del lib s = del lib s"
| "invoke Post lib s = post lib s"
| "invoke Put lib s = put lib s"

datatype config =
    SetUrl string
  | SetTimeoutMs int
  | SetFollowRedirects bool
  | SetUserAgent string
  | AddHeader string
  | SetBody string string

fun configure :: "config \<Rightarrow> HttpRequest \<Rightarrow> HttpRequest" where
  "configure (SetUrl u) s = set_url u s"
| "configure (SetTimeoutMs ms) s = set_timeout_ms ms s"
| "configure (SetFollowRedirects yes) s = set_follow_redirects yes s"
| "configure (SetUserAgent ua) s = set_user_agent ua s"
| "configure (AddHeader h) s = add_header h s"
| "configure (SetBody b ct) s = set_body b ct s"

datatype call = Configure config | Invoke verb libcurl

fun step :: "call \<Rightarrow> HttpRequest \<Rightarrow> HttpRequest" where
  "step (Configure c) s = configure c s"
| "step (Invoke v lib) s = after (invoke v lib s)"

definition session :: "call list \<Rightarrow> HttpRequest \<Rightarrow> HttpRequest" where
  "session cs s = fold step cs s"

fun sends_payload :: "call \<Rightarrow> bool" where
  "sends_payload (Invoke Post lib) = True"
| "sends_payload (Invoke Put lib) = True"
| "sends_payload c = False"

fun sets_custom_request :: "call \<Rightarrow> bool" where
  "sets_custom_request (Invoke Del lib) = True"
| "sets_custom_request (Invoke Put lib) = True"
| "sets_custom_request c = False"

subsection \<open>The specification's reading of a configuration sequence\<close>

text \<open>
  Last write wins: of the values a sequence of setter calls gives to one field, in call
  order, the most recent one is the last; \<open>None\<close> when no call sets the field. Header
  lines: what each call adds, in call order.
\<close>

fun url_of :: "config \<Rightarrow> string option" where
  "url_of (SetUrl u) = Some u"
| "url_of c = None"

fun timeout_of :: "config \<Rightarrow> int option" where
  "timeout_of (SetTimeoutMs ms) = Some ms"
| "timeout_of c = None"

fun user_agent_of :: "config \<Rightarrow> string option" where
  "user_agent_of (SetUserAgent ua) = Some ua"
| "user_agent_of c = None"

fun body_of :: "config \<Rightarrow> string option" where
  "body_of (SetBody b ct) = Some b"
| "body_of c = None"

definition most_recent :: "(config \<Rightarrow> 'a option) \<Rightarrow> config list \<Rightarrow> 'a option" where
  "most_recent f cs =
     (case List.map_filter f cs of [] \<Rightarrow> None | x # xs \<Rightarrow> Some (last (x # xs)))"

fun header_lines :: "config \<Rightarrow> string list" where
  "header_lines (AddHeader h) = [c_str h]"
| "header_lines (SetBody b ct) = (if ct \<noteq> [] then [c_str (''Content-Type: '' @ ct)] else [])"
| "header_lines c = []"

text \<open>What a run of the engine hands to the two callbacks, taken together.\<close>

fun received_body :: "event list \<Rightarrow> string" where
  "received_body [] = []"
| "received_body (HeaderLine l # es) = received_body es"
| "received_body (BodyChunk c # es) = c @ received_body es"

fun received_headers :: "event list \<Rightarrow> string list" where
  "received_headers [] = []"
| "received_headers (HeaderLine l # es) = l # received_headers es"
| "received_headers (BodyChunk c # es) = received_headers es"

subsection \<open>Sample engines and objects\<close>

text \<open>
  \<open>lib_ok\<close> allocates a handle and completes every exchange with status 200, one header
  line and one body chunk. \<open>lib_down\<close> allocates a handle and fails every exchange with
  code 7, writing a message into the error buffer; \<open>lib_quiet\<close> fails with code 28 and
  writes nothing. \<open>lib_oom\<close> cannot allocate a handle.
\<close>

definition lib_ok :: libcurl where
  "lib_ok =
     \<lparr>curl_easy_init = Some easy_defaults,
      curl_easy_perform = (\<lambda>e. \<lparr>delivered = [HeaderLine ''HTTP/1.1 200 OK'', BodyChunk ''ok''],
                                code = 0, errtext = None, response_code = 200\<rparr>),
      curl_easy_strerror = (\<lambda>n. ''No error'')\<rparr>"

definition lib_down :: libcurl where
  "lib_down =
     \<lparr>curl_easy_init = Some easy_defaults,
      curl_easy_perform = (\<lambda>e. \<lparr>delivered = [], code = 7,
                                errtext = Some ''Failed to connect'', response_code = 0\<rparr>),
      curl_easy_strerror = (\<lambda>n. ''Could not connect to server'')\<rparr>"

definition lib_quiet :: libcurl where
  "lib_quiet =
     \<lparr>curl_easy_init = Some easy_defaults,
      curl_easy_perform = (\<lambda>e. \<lparr>delivered = [BodyChunk ''par''], code = 28,
                                errtext = None, response_code = 0\<rparr>),
      curl_easy_strerror = (\<lambda>n. ''Timeout was reached'')\<rparr>"

definition lib_oom :: libcurl where
  "lib_oom =
     \<lparr>curl_easy_init = None,
      curl_easy_perform = (\<lambda>e. \<lparr>delivered = [], code = 2, errtext = None, response_code = 0\<rparr>),
      curl_easy_strerror = (\<lambda>n. ''Failed initialization'')\<rparr>"

text \<open>A freshly constructed object at address 0.\<close>

definition fresh :: HttpRequest where
  "fresh = HttpRequest_defaults 0 (HttpRequest_members easy_defaults)"

section \<open>Basic facts\<close>

lemmas verb_defs = get_def del_def post_def put_def perform_def reset_buffers_def Let_def

lemmas setter_defs = set_url_def set_timeout_ms_def set_follow_redirects_def set_user_agent_def
  add_header_def set_body_def curl_slist_append_def Let_def

subsection \<open>C strings and the cast\<close>

lemma static_cast_long_exact: "n < 2 ^ 63 \<Longrightarrow> static_cast_long n = int n"
  unfolding static_cast_long_def
  by (simp add: signed_of_nat signed_take_bit_int_eq_self)

lemma c_str_id:
  assumes "NUL \<notin> set s"
  shows "c_str s = s"
proof -
  have "\<forall>x\<in>set s. x \<noteq> NUL"
    using assms by blast
  then show ?thesis
    unfolding c_str_def by (simp only: takeWhile_eq_all_conv)
qed

lemma c_str_content_type: "c_str (''Content-Type: '' @ ct) = ''Content-Type: '' @ c_str ct"
  by (simp add: c_str_def NUL_def)

subsection \<open>One exchange\<close>

text \<open>The callbacks report every byte they are given, so the engine never aborts on them.\<close>

lemma callbacks_consume_all:
  "fst (write_body_cb chunk self) = length chunk"
  "fst (write_header_cb chunk self) = length chunk"
  by (simp_all add: write_body_cb_def write_header_cb_def)

lemma deliver_eq:
  "deliver es s = s\<lparr>response_m := \<lparr>status = status (response_m s),
      body = body (response_m s) @ received_body es,
      headers = headers (response_m s) @ received_headers es\<rparr>\<rparr>"
  by (induction es s rule: deliver.induct) (simp_all add: write_header_cb_def write_body_cb_def)

lemma perform_sent:
  "sent (perform lib s) =
     (if headers_m s \<noteq> [] then curl_easy_setopt (easy_m s) (CURLOPT_HTTPHEADER (headers_m s))
      else easy_m s)"
  by (simp add: perform_def Let_def)

lemma perform_after:
  "after (perform lib s) =
     (let e = (if headers_m s \<noteq> [] then curl_easy_setopt (easy_m s) (CURLOPT_HTTPHEADER (headers_m s))
               else easy_m s);
          t = curl_easy_perform lib e
      in s\<lparr>easy_m := e,
           response_m := \<lparr>status = (if code t = CURLE_OK then response_code t else status (response_m s)),
                           body = body (response_m s) @ received_body (delivered t),
                           headers = headers (response_m s) @ received_headers (delivered t)\<rparr>,
           errbuf_m := (case errtext t of None \<Rightarrow> errbuf_m s
                        | Some m \<Rightarrow> take (CURL_ERROR_SIZE - 1) (c_str m))\<rparr>)"
  by (simp add: perform_def Let_def deliver_eq write_errbuf_def split: option.splits)

lemma perform_result:
  "result (perform lib s) =
     (let t = curl_easy_perform lib (sent (perform lib s));
          b = (case errtext t of None \<Rightarrow> errbuf_m s | Some m \<Rightarrow> take (CURL_ERROR_SIZE - 1) (c_str m))
      in if code t \<noteq> CURLE_OK
         then Inl (runtime_error (''curl_easy_perform: '' @
                (if b \<noteq> [] then b else curl_easy_strerror lib (code t))))
         else Inr \<lparr>status = response_code t,
                   body = body (response_m s) @ received_body (delivered t),
                   headers = headers (response_m s) @ received_headers (delivered t)\<rparr>)"
  by (simp add: perform_def Let_def deliver_eq write_errbuf_def split: option.splits)

subsection \<open>The four verbs, uniformly\<close>

lemma invoke_forgets:
  "invoke v lib (s\<lparr>response_m := r, errbuf_m := b\<rparr>) = invoke v lib s"
  by (cases v) (simp_all add: get_def del_def post_def put_def reset_buffers_def)

lemma invoke_sent:
  "sent (invoke v lib s) =
     (let e = (case v of
                 Get \<Rightarrow> curl_easy_setopt (easy_m s) (CURLOPT_HTTPGET 1)
               | Del \<Rightarrow> curl_easy_setopt (easy_m s) (CURLOPT_CUSTOMREQUEST ''DELETE'')
               | Post \<Rightarrow> curl_easy_setopt (curl_easy_setopt (curl_easy_setopt (easy_m s)
                    (CURLOPT_POST 1)) (CURLOPT_POSTFIELDS (body_m s)))
                    (CURLOPT_POSTFIELDSIZE (static_cast_long (length (body_m s))))
               | Put \<Rightarrow> curl_easy_setopt (curl_easy_setopt (curl_easy_setopt (easy_m s)
                    (CURLOPT_CUSTOMREQUEST ''PUT'')) (CURLOPT_POSTFIELDS (body_m s)))
                    (CURLOPT_POSTFIELDSIZE (static_cast_long (length (body_m s)))))
      in if headers_m s \<noteq> [] then curl_easy_setopt e (CURLOPT_HTTPHEADER (headers_m s)) else e)"
  by (cases v)
    (simp_all add: get_def del_def post_def put_def reset_buffers_def perform_sent Let_def)

lemma invoke_sent_lib: "sent (invoke v lib s) = sent (invoke v lib' s)"
  by (simp add: invoke_sent)

lemma invoke_sent_frame:
  "o_url (sent (invoke v lib s)) = o_url (easy_m s)"
  "o_timeout_ms (sent (invoke v lib s)) = o_timeout_ms (easy_m s)"
  "o_followlocation (sent (invoke v lib s)) = o_followlocation (easy_m s)"
  "o_useragent (sent (invoke v lib s)) = o_useragent (easy_m s)"
  "o_errorbuffer (sent (invoke v lib s)) = o_errorbuffer (easy_m s)"
  "o_writefunction (sent (invoke v lib s)) = o_writefunction (easy_m s)"
  "o_writedata (sent (invoke v lib s)) = o_writedata (easy_m s)"
  "o_headerfunction (sent (invoke v lib s)) = o_headerfunction (easy_m s)"
  "o_headerdata (sent (invoke v lib s)) = o_headerdata (easy_m s)"
  by (simp_all add: invoke_sent Let_def split: verb.splits)

lemma invoke_sent_httpheader:
  "o_httpheader (sent (invoke v lib s)) =
     (if headers_m s = [] then o_httpheader (easy_m s) else Some (headers_m s))"
  by (simp add: invoke_sent Let_def split: verb.splits)

lemma invoke_after:
  "after (invoke v lib s) =
     s\<lparr>easy_m := sent (invoke v lib s),
       response_m :=
         \<lparr>status = (if code (curl_easy_perform lib (sent (invoke v lib s))) = CURLE_OK
                    then response_code (curl_easy_perform lib (sent (invoke v lib s))) else 0),
          body = received_body (delivered (curl_easy_perform lib (sent (invoke v lib s)))),
          headers = received_headers (delivered (curl_easy_perform lib (sent (invoke v lib s))))\<rparr>,
       errbuf_m :=
         (case errtext (curl_easy_perform lib (sent (invoke v lib s))) of
            None \<Rightarrow> [] | Some m \<Rightarrow> take (CURL_ERROR_SIZE - 1) (c_str m))\<rparr>"
  by (cases v)
    (simp_all add: get_def del_def post_def put_def reset_buffers_def perform_after perform_sent
      Let_def HttpResponse_init_def split: option.splits)

lemma invoke_result:
  "result (invoke v lib s) =
     (let t = curl_easy_perform lib (sent (invoke v lib s));
          b = (case errtext t of None \<Rightarrow> [] | Some m \<Rightarrow> take (CURL_ERROR_SIZE - 1) (c_str m))
      in if code t \<noteq> CURLE_OK
         then Inl (runtime_error (''curl_easy_perform: '' @
                (if b \<noteq> [] then b else curl_easy_strerror lib (code t))))
         else Inr \<lparr>status = response_code t,
                   body = received_body (delivered t),
                   headers = received_headers (delivered t)\<rparr>)"
  by (cases v)
    (simp_all add: get_def del_def post_def put_def reset_buffers_def perform_result
      Let_def HttpResponse_init_def split: option.splits)

lemma invoke_errbuf:
  "errbuf_m (after (invoke v lib s)) =
     (case errtext (curl_easy_perform lib (sent (invoke v lib s))) of
        None \<Rightarrow> [] | Some m \<Rightarrow> take (CURL_ERROR_SIZE - 1) (c_str m))"
  by (simp add: invoke_after)

subsection \<open>The request kind along a call sequence\<close>

lemma configure_method: "o_method (easy_m (configure c s)) = o_method (easy_m s)"
  by (cases c) (simp_all add: setter_defs)

lemma get_method: "o_method (easy_m (after (get lib s))) = HTTPREQ_GET"
  using invoke_after [of Get lib s] invoke_sent [of Get lib s] by (simp add: Let_def)

lemma del_method: "o_method (easy_m (after (del lib s))) = o_method (easy_m s)"
  using invoke_after [of Del lib s] invoke_sent [of Del lib s] by (simp add: Let_def)

lemma step_method:
  assumes "\<not> sends_payload c" and "o_method (easy_m s) = HTTPREQ_GET"
  shows "o_method (easy_m (step c s)) = HTTPREQ_GET"
proof (cases c)
  case (Configure k)
  with assms(2) show ?thesis by (simp add: configure_method)
next
  case (Invoke v lib)
  with assms show ?thesis by (cases v) (simp_all add: get_method del_method)
qed

lemma session_method:
  "\<not> list_ex sends_payload cs \<Longrightarrow> o_method (easy_m s) = HTTPREQ_GET \<Longrightarrow>
   o_method (easy_m (session cs s)) = HTTPREQ_GET"
  unfolding session_def
  by (induction cs arbitrary: s) (simp_all add: step_method)

lemma constructed_method:
  "o_method (easy_m (HttpRequest_defaults this (HttpRequest_members easy_defaults))) = HTTPREQ_GET"
  by (simp add: HttpRequest_defaults_def HttpRequest_members_def easy_defaults_def setter_defs)

subsection \<open>The method keyword along a call sequence\<close>

lemma configure_customrequest:
  "o_customrequest (easy_m (configure c s)) = o_customrequest (easy_m s)"
  by (cases c) (simp_all add: setter_defs)

lemma get_customrequest:
  "o_customrequest (easy_m (after (get lib s))) = o_customrequest (easy_m s)"
  using invoke_after [of Get lib s] invoke_sent [of Get lib s] by (simp add: Let_def)

lemma post_customrequest:
  "o_customrequest (easy_m (after (post lib s))) = o_customrequest (easy_m s)"
  using invoke_after [of Post lib s] invoke_sent [of Post lib s] by (simp add: Let_def)

lemma step_customrequest:
  assumes "\<not> sets_custom_request c"
  shows "o_customrequest (easy_m (step c s)) = o_customrequest (easy_m s)"
proof (cases c)
  case (Configure k)
  then show ?thesis by (simp add: configure_customrequest)
next
  case (Invoke v lib)
  with assms show ?thesis by (cases v) (simp_all add: get_customrequest post_customrequest)
qed

lemma session_customrequest:
  "\<not> list_ex sets_custom_request cs \<Longrightarrow>
   o_customrequest (easy_m (session cs s)) = o_customrequest (easy_m s)"
  unfolding session_def
  by (induction cs arbitrary: s) (simp_all add: step_customrequest)

subsection \<open>A sequence of setter calls\<close>

lemma map_filter_snoc:
  "List.map_filter f (xs @ [x]) = List.map_filter f xs @ (case f x of None \<Rightarrow> [] | Some y \<Rightarrow> [y])"
  by (simp add: List.map_filter_def split: option.splits)

lemma most_recent_Nil [simp]: "most_recent f [] = None"
  by (simp add: most_recent_def)

lemma most_recent_snoc:
  "most_recent f (cs @ [c]) = (case f c of None \<Rightarrow> most_recent f cs | Some x \<Rightarrow> Some x)"
  by (cases "List.map_filter f cs")
    (simp_all add: most_recent_def map_filter_snoc split: option.splits)

lemma configure_o_url:
  "o_url (easy_m (fold configure cs s)) =
     (case most_recent url_of cs of None \<Rightarrow> o_url (easy_m s) | Some u \<Rightarrow> Some (c_str u))"
proof (induction cs rule: rev_induct)
  case Nil
  show ?case by simp
next
  case (snoc c cs)
  then show ?case by (cases c) (simp_all add: most_recent_snoc setter_defs)
qed

lemma configure_o_timeout_ms:
  "o_timeout_ms (easy_m (fold configure cs s)) =
     (case most_recent timeout_of cs of None \<Rightarrow> o_timeout_ms (easy_m s) | Some ms \<Rightarrow> ms)"
proof (induction cs rule: rev_induct)
  case Nil
  show ?case by simp
next
  case (snoc c cs)
  then show ?case by (cases c) (simp_all add: most_recent_snoc setter_defs)
qed

lemma configure_o_useragent:
  "o_useragent (easy_m (fold configure cs s)) =
     (case most_recent user_agent_of cs of None \<Rightarrow> o_useragent (easy_m s)
      | Some ua \<Rightarrow> Some (c_str ua))"
proof (induction cs rule: rev_induct)
  case Nil
  show ?case by simp
next
  case (snoc c cs)
  then show ?case by (cases c) (simp_all add: most_recent_snoc setter_defs)
qed

lemma configure_body_m:
  "body_m (fold configure cs s) = (case most_recent body_of cs of None \<Rightarrow> body_m s | Some b \<Rightarrow> b)"
proof (induction cs rule: rev_induct)
  case Nil
  show ?case by simp
next
  case (snoc c cs)
  then show ?case by (cases c) (simp_all add: most_recent_snoc setter_defs)
qed

lemma configure_headers_m:
  "headers_m (fold configure cs s) = headers_m s @ concat (map header_lines cs)"
proof (induction cs rule: rev_induct)
  case Nil
  show ?case by simp
next
  case (snoc c cs)
  then show ?case by (cases c) (simp_all add: setter_defs)
qed

lemma configure_o_httpheader:
  "o_httpheader (easy_m (fold configure cs s)) = o_httpheader (easy_m s)"
proof (induction cs rule: rev_induct)
  case Nil
  show ?case by simp
next
  case (snoc c cs)
  then show ?case by (cases c) (simp_all add: setter_defs)
qed

section \<open>The claims\<close>

subsection \<open>C1: which verbs send a body\<close>

text \<open>
  What the code does meet. \<open>get\<close> sends no request body, whatever was configured and
  whatever ran before: \<^verbatim>\<open>CURLOPT_HTTPGET\<close> puts the request kind back to GET. \<open>post\<close>
  and \<open>put\<close> always send the currently configured body with its byte length converted
  to \<^verbatim>\<open>long\<close>, which is the length itself below \<open>2^63\<close> bytes; the empty body goes
  out with length 0. \<open>del\<close> sends no request body as long as the request kind is GET:
  on a constructed object on which only setters, \<open>get\<close> and \<open>del\<close> have run, and right
  after any \<open>get\<close>.
\<close>

theorem verb_payload:
  "outgoing_body (sent (get lib s)) = None
   \<and> (o_method (easy_m s) = HTTPREQ_GET \<longrightarrow> outgoing_body (sent (del lib s)) = None)
   \<and> (\<not> list_ex sends_payload cs \<longrightarrow>
        outgoing_body (sent (del lib
          (session cs (HttpRequest_defaults this (HttpRequest_members easy_defaults))))) = None)
   \<and> outgoing_body (sent (del lib (after (get lib' s)))) = None
   \<and> outgoing_body (sent (post lib s)) = Some (body_m s, static_cast_long (length (body_m s)))
   \<and> outgoing_body (sent (put lib s)) = Some (body_m s, static_cast_long (length (body_m s)))
   \<and> (length (body_m s) < 2 ^ 63 \<longrightarrow>
        static_cast_long (length (body_m s)) = int (length (body_m s)))"
proof -
  have g: "outgoing_body (sent (get lib s)) = None"
    by (simp add: verb_defs outgoing_body_def)
  have d: "outgoing_body (sent (del lib t)) = None" if "o_method (easy_m t) = HTTPREQ_GET" for t
    using that by (simp add: verb_defs outgoing_body_def)
  have dg: "outgoing_body (sent (del lib (after (get lib' s)))) = None"
    by (rule d) (rule get_method)
  have p: "outgoing_body (sent (post lib s)) = Some (body_m s, static_cast_long (length (body_m s)))"
    by (simp add: verb_defs outgoing_body_def)
  have u: "outgoing_body (sent (put lib s)) = Some (body_m s, static_cast_long (length (body_m s)))"
    by (simp add: verb_defs outgoing_body_def)
  show ?thesis
    using g d dg p u session_method [OF _ constructed_method] static_cast_long_exact by blast
qed

text \<open>
  The theorem at a constructed object with body \<open>x\<close>: \<open>del\<close> sends nothing there, nor
  after a \<open>get\<close> and a failed \<open>del\<close>; \<open>post\<close> sends the one byte.
\<close>

theorem verb_payload_witness:
  "o_method (easy_m (set_body ''x'' [] fresh)) = HTTPREQ_GET
   \<and> outgoing_body (sent (del lib_ok (set_body ''x'' [] fresh))) = None
   \<and> \<not> list_ex sends_payload [Configure (SetBody ''x'' []), Invoke Get lib_ok, Invoke Del lib_down]
   \<and> outgoing_body (sent (del lib_ok
        (session [Configure (SetBody ''x'' []), Invoke Get lib_ok, Invoke Del lib_down]
           (HttpRequest_defaults 0 (HttpRequest_members easy_defaults))))) = None
   \<and> outgoing_body (sent (post lib_ok (set_body ''x'' [] fresh))) = Some (''x'', 1)
   \<and> length (body_m (set_body ''x'' [] fresh)) < 2 ^ 63"
proof -
  have m: "o_method (easy_m (set_body ''x'' [] fresh)) = HTTPREQ_GET"
    by code_simp
  have n: "\<not> list_ex sends_payload
      [Configure (SetBody ''x'' []), Invoke Get lib_ok, Invoke Del lib_down]"
    by code_simp
  have p: "outgoing_body (sent (post lib_ok (set_body ''x'' [] fresh))) = Some (''x'', 1)"
    by code_simp
  have l: "length (body_m (set_body ''x'' [] fresh)) < 2 ^ 63"
    by (simp add: set_body_def)
  from verb_payload [of lib_ok "set_body ''x'' [] fresh"
      "[Configure (SetBody ''x'' []), Invoke Get lib_ok, Invoke Del lib_down]" 0 lib_ok] m n p l
  show ?thesis by blast
qed

text \<open>
  C1: \<open>get\<close> and \<open>del\<close> send no request body, whichever verbs ran before on the same
  object. The code breaks this for \<open>del\<close>. Unlike \<open>get\<close>, \<open>del\<close> sets the method
  keyword only and does not put the request kind back, so after \<open>set_body\<close> of \<open>x\<close> and a
  \<open>post\<close> on the same object the request kind is still POST: the request goes out under
  the keyword \<open>DELETE\<close> with the one-byte body \<open>x\<close>. A \<open>get\<close> in the same place sends
  no body.
\<close>

theorem del_after_post_sends_body:
  "outgoing_body (sent (del lib_ok (after (post lib_ok (set_body ''x'' [] fresh))))) =
     Some (''x'', 1)
   \<and> outgoing_method (sent (del lib_ok (after (post lib_ok (set_body ''x'' [] fresh))))) =
     ''DELETE''
   \<and> outgoing_body (sent (get lib_ok (after (post lib_ok (set_body ''x'' [] fresh))))) = None"
  by code_simp

subsection \<open>C2: every verb starts from cleared buffers\<close>

text \<open>
  C2. A verb's outcome does not depend on the response state and the error buffer the
  object had when the call began: replacing them by anything gives the same exchange.
  After the call the response holds what this exchange delivered and nothing else, and
  the error buffer holds what this exchange wrote, or is empty. In particular a second
  verb call on the same object runs as on cleared buffers.
\<close>

theorem verb_resets_response:
  "invoke v lib (s\<lparr>response_m := r, errbuf_m := b\<rparr>) = invoke v lib s
   \<and> response_m (after (invoke v lib s)) =
       \<lparr>status = (if code (curl_easy_perform lib (sent (invoke v lib s))) = CURLE_OK
                  then response_code (curl_easy_perform lib (sent (invoke v lib s))) else 0),
        body = received_body (delivered (curl_easy_perform lib (sent (invoke v lib s)))),
        headers = received_headers (delivered (curl_easy_perform lib (sent (invoke v lib s))))\<rparr>
   \<and> errbuf_m (after (invoke v lib s)) =
       (case errtext (curl_easy_perform lib (sent (invoke v lib s))) of
          None \<Rightarrow> [] | Some m \<Rightarrow> take (CURL_ERROR_SIZE - 1) (c_str m))
   \<and> invoke v lib (after (invoke v' lib' s)) =
       invoke v lib ((after (invoke v' lib' s))\<lparr>response_m := HttpResponse_init, errbuf_m := []\<rparr>)"
proof -
  have a: "invoke v lib (s\<lparr>response_m := r, errbuf_m := b\<rparr>) = invoke v lib s"
    by (rule invoke_forgets)
  have r: "response_m (after (invoke v lib s)) =
       \<lparr>status = (if code (curl_easy_perform lib (sent (invoke v lib s))) = CURLE_OK
                  then response_code (curl_easy_perform lib (sent (invoke v lib s))) else 0),
        body = received_body (delivered (curl_easy_perform lib (sent (invoke v lib s)))),
        headers = received_headers (delivered (curl_easy_perform lib (sent (invoke v lib s))))\<rparr>"
    by (simp add: invoke_after)
  have e: "errbuf_m (after (invoke v lib s)) =
       (case errtext (curl_easy_perform lib (sent (invoke v lib s))) of
          None \<Rightarrow> [] | Some m \<Rightarrow> take (CURL_ERROR_SIZE - 1) (c_str m))"
    by (rule invoke_errbuf)
  have c: "invoke v lib (after (invoke v' lib' s)) =
       invoke v lib ((after (invoke v' lib' s))\<lparr>response_m := HttpResponse_init, errbuf_m := []\<rparr>)"
    by (simp add: invoke_forgets)
  show ?thesis
    by (intro conjI a r e c)
qed

subsection \<open>C3: last write wins, header lines accumulate\<close>

text \<open>
  C3, as amended. After any sequence of setter calls, a verb hands the engine the most
  recently set URL and user-agent, each as the C string of the value (cut at its first
  NUL byte), and the most recently set timeout; \<open>post\<close> and \<open>put\<close> send the most
  recently set body, whole. A field no call has set keeps what the handle had. The
  header list is the earlier one followed by what the calls added, in call order,
  duplicates kept, and it is attached whenever it is not empty. Calling \<open>set_url\<close>,
  \<open>set_timeout_ms\<close> or \<open>set_user_agent\<close> twice is the same as calling it once with
  the second value; so is \<open>set_body\<close> when the first call gave no content type, and the
  body is the second one in any case.
\<close>

theorem configuration_last_write_wins:
  "o_url (sent (invoke v lib (fold configure cs s))) =
     (case most_recent url_of cs of None \<Rightarrow> o_url (easy_m s) | Some u \<Rightarrow> Some (c_str u))
   \<and> o_timeout_ms (sent (invoke v lib (fold configure cs s))) =
     (case most_recent timeout_of cs of None \<Rightarrow> o_timeout_ms (easy_m s) | Some ms \<Rightarrow> ms)
   \<and> o_useragent (sent (invoke v lib (fold configure cs s))) =
     (case most_recent user_agent_of cs of None \<Rightarrow> o_useragent (easy_m s)
      | Some ua \<Rightarrow> Some (c_str ua))
   \<and> outgoing_body (sent (post lib (fold configure cs s))) =
     (case most_recent body_of cs of
        None \<Rightarrow> Some (body_m s, static_cast_long (length (body_m s)))
      | Some b \<Rightarrow> Some (b, static_cast_long (length b)))
   \<and> outgoing_body (sent (put lib (fold configure cs s))) =
     (case most_recent body_of cs of
        None \<Rightarrow> Some (body_m s, static_cast_long (length (body_m s)))
      | Some b \<Rightarrow> Some (b, static_cast_long (length b)))
   \<and> o_httpheader (sent (invoke v lib (fold configure cs s))) =
     (if headers_m s @ concat (map header_lines cs) = [] then o_httpheader (easy_m s)
      else Some (headers_m s @ concat (map header_lines cs)))
   \<and> set_url u2 (set_url u1 s) = set_url u2 s
   \<and> set_timeout_ms m2 (set_timeout_ms m1 s) = set_timeout_ms m2 s
   \<and> set_user_agent a2 (set_user_agent a1 s) = set_user_agent a2 s
   \<and> set_body b2 ct (set_body b1 [] s) = set_body b2 ct s
   \<and> body_m (set_body b2 c2 (set_body b1 c1 s)) = b2"
proof -
  have po: "outgoing_body (sent (post lib t)) = Some (body_m t, static_cast_long (length (body_m t)))"
    for t by (simp add: verb_defs outgoing_body_def)
  have pu: "outgoing_body (sent (put lib t)) = Some (body_m t, static_cast_long (length (body_m t)))"
    for t by (simp add: verb_defs outgoing_body_def)
  have b: "outgoing_body (sent (post lib (fold configure cs s))) =
     (case most_recent body_of cs of
        None \<Rightarrow> Some (body_m s, static_cast_long (length (body_m s)))
      | Some b \<Rightarrow> Some (b, static_cast_long (length b)))"
    by (simp add: po configure_body_m split: option.splits)
  have b': "outgoing_body (sent (put lib (fold configure cs s))) =
     (case most_recent body_of cs of
        None \<Rightarrow> Some (body_m s, static_cast_long (length (body_m s)))
      | Some b \<Rightarrow> Some (b, static_cast_long (length b)))"
    by (simp add: pu configure_body_m split: option.splits)
  have h: "o_httpheader (sent (invoke v lib (fold configure cs s))) =
     (if headers_m s @ concat (map header_lines cs) = [] then o_httpheader (easy_m s)
      else Some (headers_m s @ concat (map header_lines cs)))"
    by (simp add: invoke_sent_httpheader configure_headers_m configure_o_httpheader)
  have w: "set_url u2 (set_url u1 s) = set_url u2 s"
    "set_timeout_ms m2 (set_timeout_ms m1 s) = set_timeout_ms m2 s"
    "set_user_agent a2 (set_user_agent a1 s) = set_user_agent a2 s"
    "set_body b2 ct (set_body b1 [] s) = set_body b2 ct s"
    "body_m (set_body b2 c2 (set_body b1 c1 s)) = b2"
    by (simp_all add: setter_defs)
  have u: "o_url (sent (invoke v lib (fold configure cs s))) =
     (case most_recent url_of cs of None \<Rightarrow> o_url (easy_m s) | Some u \<Rightarrow> Some (c_str u))"
    by (simp only: invoke_sent_frame(1) configure_o_url)
  have t: "o_timeout_ms (sent (invoke v lib (fold configure cs s))) =
     (case most_recent timeout_of cs of None \<Rightarrow> o_timeout_ms (easy_m s) | Some ms \<Rightarrow> ms)"
    by (simp only: invoke_sent_frame(2) configure_o_timeout_ms)
  have a: "o_useragent (sent (invoke v lib (fold configure cs s))) =
     (case most_recent user_agent_of cs of None \<Rightarrow> o_useragent (easy_m s)
      | Some ua \<Rightarrow> Some (c_str ua))"
    by (simp only: invoke_sent_frame(4) configure_o_useragent)
  show ?thesis
    by (intro conjI u t a b b' h w)
qed

text \<open>
  C3 as stated fails: \<open>set_url\<close> passes \<^verbatim>\<open>url_.c_str()\<close>, so a URL with a NUL byte
  reaches the engine cut at that byte, not as the value that was set.
\<close>

theorem set_url_cut_at_NUL:
  "o_url (sent (get lib_ok (set_url [CHR ''a'', NUL, CHR ''b''] fresh))) = Some ''a''"
  by code_simp

subsection \<open>C4: the content type of \<open>set_body\<close>\<close>

text \<open>
  C4, as amended. \<open>set_body\<close> with a non-empty content type appends exactly one header
  line after all lines added before: \<open>Content-Type: \<close> followed by the content type
  read as a C string. For a content type without a NUL byte that is the line
  \<open>Content-Type: <value>\<close>. With an empty content type the header list is unchanged.
\<close>

theorem set_body_content_type_header:
  "headers_m (set_body b ct s) =
     (if ct = [] then headers_m s else headers_m s @ [''Content-Type: '' @ c_str ct])
   \<and> (ct \<noteq> [] \<and> NUL \<notin> set ct \<longrightarrow>
        headers_m (set_body b ct s) = headers_m s @ [''Content-Type: '' @ ct])"
proof -
  have g: "headers_m (set_body b ct s) =
     (if ct = [] then headers_m s else headers_m s @ [''Content-Type: '' @ c_str ct])"
    unfolding set_body_def add_header_def curl_slist_append_def Let_def c_str_content_type
    by simp
  have "headers_m (set_body b ct s) = headers_m s @ [''Content-Type: '' @ ct]"
    if "ct \<noteq> []" "NUL \<notin> set ct"
    using that by (simp add: g c_str_id)
  with g show ?thesis by blast
qed

text \<open>The theorem for \<open>application/json\<close> on an object that has one header line already.\<close>

theorem set_body_content_type_header_witness:
  "''application/json'' \<noteq> [] \<and> NUL \<notin> set ''application/json''
   \<and> headers_m (set_body ''x=1'' ''application/json'' (add_header ''Accept: */*'' fresh)) =
       headers_m (add_header ''Accept: */*'' fresh) @ [''Content-Type: '' @ ''application/json'']
   \<and> headers_m (add_header ''Accept: */*'' fresh) = [''Accept: */*'']"
proof -
  have n: "NUL \<notin> set ''application/json''"
    by code_simp
  have a: "headers_m (add_header ''Accept: */*'' fresh) = [''Accept: */*'']"
    by code_simp
  have e: "''application/json'' \<noteq> []"
    by simp
  from set_body_content_type_header
    [of "''x=1''" "''application/json''" "add_header ''Accept: */*'' fresh"] e n a
  show ?thesis by blast
qed

text \<open>
  C4 as stated fails: the line goes through \<^verbatim>\<open>std::string(h).c_str()\<close> in
  \<open>add_header\<close>, so a content type with a NUL byte gives a line cut at that byte.
\<close>

theorem set_body_content_type_cut_at_NUL:
  "headers_m (set_body ''x'' [CHR ''a'', NUL, CHR ''b''] fresh) = [''Content-Type: a'']"
  by code_simp

subsection \<open>C5: a verb raises exactly when the engine fails\<close>

text \<open>
  C5. A verb raises exactly when the engine's code for this exchange is not
  \<open>CURLE_OK\<close>; otherwise it returns the response record of the object, whose status is
  the response code read from the engine. A failed exchange is never a return.
\<close>

theorem verb_raises_iff_engine_fails:
  "(case result (invoke v lib s) of
      Inl e \<Rightarrow> code (curl_easy_perform lib (sent (invoke v lib s))) \<noteq> CURLE_OK
    | Inr r \<Rightarrow> code (curl_easy_perform lib (sent (invoke v lib s))) = CURLE_OK
        \<and> status r = response_code (curl_easy_perform lib (sent (invoke v lib s)))
        \<and> r = response_m (after (invoke v lib s)))"
proof (cases "code (curl_easy_perform lib (sent (invoke v lib s))) = CURLE_OK")
  case True
  then have "response_m (after (invoke v lib s)) =
       \<lparr>status = response_code (curl_easy_perform lib (sent (invoke v lib s))),
        body = received_body (delivered (curl_easy_perform lib (sent (invoke v lib s)))),
        headers = received_headers (delivered (curl_easy_perform lib (sent (invoke v lib s))))\<rparr>"
    by (simp add: invoke_after)
  with True show ?thesis
    by (simp add: invoke_result Let_def)
next
  case False
  then show ?thesis
    by (simp add: invoke_result Let_def)
qed

subsection \<open>C6: the message of a transfer error\<close>

text \<open>
  C6. When the engine fails, the verb raises \<open>curl_easy_perform: \<close> followed by the
  content of the error buffer if that is not empty, and by \<open>curl_easy_strerror\<close> of the
  code only if it is empty.
\<close>

theorem transfer_error_message:
  "code (curl_easy_perform lib (sent (invoke v lib s))) \<noteq> CURLE_OK \<longrightarrow>
   result (invoke v lib s) =
     Inl (runtime_error (''curl_easy_perform: '' @
       (if errbuf_m (after (invoke v lib s)) \<noteq> [] then errbuf_m (after (invoke v lib s))
        else curl_easy_strerror lib (code (curl_easy_perform lib (sent (invoke v lib s)))))))"
  by (simp add: invoke_result invoke_errbuf Let_def)

text \<open>
  The theorem for an engine that fills the buffer and for one that leaves it empty.
\<close>

theorem transfer_error_message_witness:
  "code (curl_easy_perform lib_down (sent (invoke Get lib_down fresh))) \<noteq> CURLE_OK
   \<and> errbuf_m (after (invoke Get lib_down fresh)) = ''Failed to connect''
   \<and> result (invoke Get lib_down fresh) =
       Inl (runtime_error ''curl_easy_perform: Failed to connect'')
   \<and> code (curl_easy_perform lib_quiet (sent (invoke Get lib_quiet fresh))) \<noteq> CURLE_OK
   \<and> errbuf_m (after (invoke Get lib_quiet fresh)) = []
   \<and> result (invoke Get lib_quiet fresh) =
       Inl (runtime_error ''curl_easy_perform: Timeout was reached'')"
proof -
  have c1: "code (curl_easy_perform lib_down (sent (invoke Get lib_down fresh))) \<noteq> CURLE_OK"
    by code_simp
  have b1: "errbuf_m (after (invoke Get lib_down fresh)) = ''Failed to connect''"
    by code_simp
  have e1: "curl_easy_strerror lib_down n = ''Could not connect to server''" for n
    by (simp add: lib_down_def)
  have c2: "code (curl_easy_perform lib_quiet (sent (invoke Get lib_quiet fresh))) \<noteq> CURLE_OK"
    by code_simp
  have b2: "errbuf_m (after (invoke Get lib_quiet fresh)) = []"
    by code_simp
  have e2: "curl_easy_strerror lib_quiet n = ''Timeout was reached''" for n
    by (simp add: lib_quiet_def)
  from transfer_error_message [of lib_down Get fresh]
    transfer_error_message [of lib_quiet Get fresh] c1 b1 c2 b2
  show ?thesis by (simp add: e1 e2)
qed

subsection \<open>C7: construction\<close>

text \<open>
  C7. The constructor raises \<open>curl_easy_init failed\<close> exactly when the library gives no
  handle. Otherwise the object has redirect following on, timeout 0, the user-agent
  \<open>net::HttpRequest/1.0\<close>, the error buffer and the body and header callbacks
  registered with the address of the new object, and empty members.
\<close>

theorem constructor_defaults:
  "(case HttpRequest_ctor lib this of
      Inl e \<Rightarrow> curl_easy_init lib = None \<and> e = runtime_error ''curl_easy_init failed''
    | Inr s \<Rightarrow> curl_easy_init lib \<noteq> None
        \<and> o_followlocation (easy_m s) = 1
        \<and> o_timeout_ms (easy_m s) = 0
        \<and> o_useragent (easy_m s) = Some ''net::HttpRequest/1.0''
        \<and> user_agent_m s = ''net::HttpRequest/1.0''
        \<and> o_errorbuffer (easy_m s) = Some this
        \<and> o_writefunction (easy_m s) = Some write_body_cb_fn
        \<and> o_writedata (easy_m s) = Some this
        \<and> o_headerfunction (easy_m s) = Some write_header_cb_fn
        \<and> o_headerdata (easy_m s) = Some this
        \<and> headers_m s = [] \<and> url_m s = [] \<and> body_m s = []
        \<and> response_m s = HttpResponse_init \<and> errbuf_m s = [])"
  by (cases "curl_easy_init lib")
    (simp_all add: HttpRequest_ctor_def HttpRequest_defaults_def HttpRequest_members_def
      set_follow_redirects_def set_timeout_ms_def set_user_agent_def Let_def c_str_def NUL_def)

subsection \<open>C8: two content types, two header lines\<close>

text \<open>
  C8. Two calls of \<open>set_body\<close> with non-empty content types leave both
  \<open>Content-Type\<close> lines at the end of the header list, the earlier one first, and every
  verb attaches that list to the request.
\<close>

theorem set_body_twice_two_content_types:
  "c1 \<noteq> [] \<and> c2 \<noteq> [] \<longrightarrow>
   headers_m (set_body b2 c2 (set_body b1 c1 s)) =
     headers_m s @ [''Content-Type: '' @ c_str c1, ''Content-Type: '' @ c_str c2]
   \<and> o_httpheader (sent (invoke v lib (set_body b2 c2 (set_body b1 c1 s)))) =
     Some (headers_m s @ [''Content-Type: '' @ c_str c1, ''Content-Type: '' @ c_str c2])"
proof
  assume ne: "c1 \<noteq> [] \<and> c2 \<noteq> []"
  have h: "headers_m (set_body b2 c2 (set_body b1 c1 s)) =
     headers_m s @ [''Content-Type: '' @ c_str c1, ''Content-Type: '' @ c_str c2]"
    unfolding set_body_def add_header_def curl_slist_append_def Let_def c_str_content_type
    using ne by simp
  have "o_httpheader (sent (invoke v lib t)) = Some (headers_m t)" if "headers_m t \<noteq> []" for t
    using that by (simp add: invoke_sent_httpheader)
  from this [of "set_body b2 c2 (set_body b1 c1 s)"] h
  show "headers_m (set_body b2 c2 (set_body b1 c1 s)) =
     headers_m s @ [''Content-Type: '' @ c_str c1, ''Content-Type: '' @ c_str c2]
   \<and> o_httpheader (sent (invoke v lib (set_body b2 c2 (set_body b1 c1 s)))) =
     Some (headers_m s @ [''Content-Type: '' @ c_str c1, ''Content-Type: '' @ c_str c2])"
    by simp
qed

text \<open>The theorem for \<open>text/plain\<close> followed by \<open>application/json\<close>, sent by \<open>post\<close>.\<close>

theorem set_body_twice_two_content_types_witness:
  "(''text/plain'' \<noteq> [] \<and> ''application/json'' \<noteq> [])
   \<and> headers_m (set_body ''b'' ''application/json'' (set_body ''a'' ''text/plain'' fresh)) =
     headers_m fresh @ [''Content-Type: '' @ c_str ''text/plain'',
                        ''Content-Type: '' @ c_str ''application/json'']
   \<and> o_httpheader (sent (invoke Post lib_ok
        (set_body ''b'' ''application/json'' (set_body ''a'' ''text/plain'' fresh)))) =
     Some (headers_m fresh @ [''Content-Type: '' @ c_str ''text/plain'',
                              ''Content-Type: '' @ c_str ''application/json''])
   \<and> headers_m fresh @ [''Content-Type: '' @ c_str ''text/plain'',
                        ''Content-Type: '' @ c_str ''application/json''] =
     [''Content-Type: text/plain'', ''Content-Type: application/json'']"
proof -
  have e: "''text/plain'' \<noteq> [] \<and> ''application/json'' \<noteq> []"
    by simp
  have v: "headers_m fresh @ [''Content-Type: '' @ c_str ''text/plain'',
                        ''Content-Type: '' @ c_str ''application/json''] =
     [''Content-Type: text/plain'', ''Content-Type: application/json'']"
    by code_simp
  from set_body_twice_two_content_types
    [of "''text/plain''" "''application/json''" "''b''" "''a''" fresh Post lib_ok] e v
  show ?thesis by blast
qed

subsection \<open>C9: \<open>get\<close> keeps the method keyword of an earlier verb\<close>

text \<open>
  C9. On the handle \<open>get\<close> changes the request kind, set to GET, and the attached
  header list, set to the object's list when that is not empty, and nothing else; the
  handle keeps this after the call. So the method keyword that \<open>del\<close> or \<open>put\<close>
  installed is still on the handle when a later \<open>get\<close> runs, directly after it or
  after any setters, \<open>get\<close> and \<open>post\<close> calls in between, and that exchange goes out
  under the keyword \<open>DELETE\<close> or \<open>PUT\<close>.
\<close>

theorem get_keeps_custom_request:
  "sent (get lib s) =
     (easy_m s)\<lparr>o_method := HTTPREQ_GET,
       o_httpheader := (if headers_m s = [] then o_httpheader (easy_m s) else Some (headers_m s))\<rparr>
   \<and> easy_m (after (get lib s)) = sent (get lib s)
   \<and> o_customrequest (sent (get lib s)) = o_customrequest (easy_m s)
   \<and> o_customrequest (easy_m (after (del lib s))) = Some ''DELETE''
   \<and> o_customrequest (easy_m (after (put lib s))) = Some ''PUT''
   \<and> outgoing_method (sent (get lib' (after (del lib s)))) = ''DELETE''
   \<and> outgoing_method (sent (get lib' (after (put lib s)))) = ''PUT''
   \<and> (\<not> list_ex sets_custom_request cs \<longrightarrow>
        o_customrequest (sent (get lib' (session cs (after (del lib s))))) = Some ''DELETE''
      \<and> o_customrequest (sent (get lib' (session cs (after (put lib s))))) = Some ''PUT'')"
proof -
  have g: "sent (get lib t) =
     (easy_m t)\<lparr>o_method := HTTPREQ_GET,
       o_httpheader := (if headers_m t = [] then o_httpheader (easy_m t) else Some (headers_m t))\<rparr>"
    for lib t
    using invoke_sent [of Get lib t] by (simp add: Let_def)
  have a: "easy_m (after (get lib s)) = sent (get lib s)"
    using invoke_after [of Get lib s] by simp
  have k: "o_customrequest (sent (get lib t)) = o_customrequest (easy_m t)" for lib t
    by (simp add: g)
  have d: "o_customrequest (easy_m (after (del lib s))) = Some ''DELETE''"
    using invoke_after [of Del lib s] invoke_sent [of Del lib s] by (simp add: Let_def)
  have p: "o_customrequest (easy_m (after (put lib s))) = Some ''PUT''"
    using invoke_after [of Put lib s] invoke_sent [of Put lib s] by (simp add: Let_def)
  have md: "outgoing_method (sent (get lib' (after (del lib s)))) = ''DELETE''"
    by (simp add: outgoing_method_def k d)
  have mp: "outgoing_method (sent (get lib' (after (put lib s)))) = ''PUT''"
    by (simp add: outgoing_method_def k p)
  have l: "\<not> list_ex sets_custom_request cs \<longrightarrow>
        o_customrequest (sent (get lib' (session cs (after (del lib s))))) = Some ''DELETE''
      \<and> o_customrequest (sent (get lib' (session cs (after (put lib s))))) = Some ''PUT''"
    by (simp add: k session_customrequest d p)
  show ?thesis
    by (intro conjI g a k d p md mp l)
qed

text \<open>
  The theorem for a \<open>del\<close>, then a new URL and a failed \<open>post\<close>, then \<open>get\<close>.
\<close>

theorem get_keeps_custom_request_witness:
  "\<not> list_ex sets_custom_request [Configure (SetUrl ''http://example.test/get''), Invoke Post lib_down]
   \<and> o_customrequest (sent (get lib_ok
        (session [Configure (SetUrl ''http://example.test/get''), Invoke Post lib_down]
           (after (del lib_ok fresh))))) = Some ''DELETE''
   \<and> outgoing_method (sent (get lib_ok (after (put lib_ok fresh)))) = ''PUT''"
proof -
  have n: "\<not> list_ex sets_custom_request
      [Configure (SetUrl ''http://example.test/get''), Invoke Post lib_down]"
    by code_simp
  from get_keeps_custom_request [of lib_ok fresh lib_ok
      "[Configure (SetUrl ''http://example.test/get''), Invoke Post lib_down]"] n
  show ?thesis by blast
qed

subsection \<open>C10: a failed verb and the configuration\<close>

text \<open>
  C10, as amended. When a verb raises, the members URL, user-agent, body and header
  list, and the options that the constructor and the setters install (URL, timeout,
  redirect following, user-agent, error buffer, callbacks and their data) are as they
  were when the call began. The handle is the one the verb handed to the engine: the
  request kind, the method keyword, the post fields with their size and the attached
  header list are what this verb installed for the exchange. The object stays usable:
  the next verb call runs as it would after any other run of the failed verb, a
  successful one included.
\<close>

theorem failed_verb_keeps_configuration:
  "result (invoke v lib s) = Inl e \<longrightarrow>
     url_m (after (invoke v lib s)) = url_m s
   \<and> user_agent_m (after (invoke v lib s)) = user_agent_m s
   \<and> body_m (after (invoke v lib s)) = body_m s
   \<and> headers_m (after (invoke v lib s)) = headers_m s
   \<and> o_url (easy_m (after (invoke v lib s))) = o_url (easy_m s)
   \<and> o_timeout_ms (easy_m (after (invoke v lib s))) = o_timeout_ms (easy_m s)
   \<and> o_followlocation (easy_m (after (invoke v lib s))) = o_followlocation (easy_m s)
   \<and> o_useragent (easy_m (after (invoke v lib s))) = o_useragent (easy_m s)
   \<and> o_errorbuffer (easy_m (after (invoke v lib s))) = o_errorbuffer (easy_m s)
   \<and> o_writefunction (easy_m (after (invoke v lib s))) = o_writefunction (easy_m s)
   \<and> o_writedata (easy_m (after (invoke v lib s))) = o_writedata (easy_m s)
   \<and> o_headerfunction (easy_m (after (invoke v lib s))) = o_headerfunction (easy_m s)
   \<and> o_headerdata (easy_m (after (invoke v lib s))) = o_headerdata (easy_m s)
   \<and> easy_m (after (invoke v lib s)) = sent (invoke v lib s)
   \<and> invoke v' lib' (after (invoke v lib s)) = invoke v' lib' (after (invoke v lib'' s))"
proof -
  have f: "url_m (after (invoke v lib s)) = url_m s"
    "user_agent_m (after (invoke v lib s)) = user_agent_m s"
    "body_m (after (invoke v lib s)) = body_m s"
    "headers_m (after (invoke v lib s)) = headers_m s"
    "easy_m (after (invoke v lib s)) = sent (invoke v lib s)"
    by (simp_all add: invoke_after)
  have n: "invoke v' lib' (after (invoke v lib s)) = invoke v' lib' (after (invoke v lib'' s))"
  proof -
    have "after (invoke v lib s) =
        (after (invoke v lib'' s))\<lparr>response_m := response_m (after (invoke v lib s)),
                                    errbuf_m := errbuf_m (after (invoke v lib s))\<rparr>"
      by (simp add: invoke_after invoke_sent_lib [of v lib s lib''])
    then show ?thesis
      using invoke_forgets by metis
  qed
  show ?thesis
    by (simp only: f invoke_sent_frame n simp_thms)
qed

text \<open>
  The theorem for a \<open>get\<close> that cannot connect; the next \<open>get\<close> runs as after a
  successful one.
\<close>

theorem failed_verb_keeps_configuration_witness:
  "result (invoke Get lib_down (set_url ''http://unreachable.test/'' fresh)) =
     Inl (runtime_error ''curl_easy_perform: Failed to connect'')
   \<and> url_m (after (invoke Get lib_down (set_url ''http://unreachable.test/'' fresh))) =
       url_m (set_url ''http://unreachable.test/'' fresh)
   \<and> o_url (easy_m (after (invoke Get lib_down (set_url ''http://unreachable.test/'' fresh)))) =
       o_url (easy_m (set_url ''http://unreachable.test/'' fresh))
   \<and> invoke Get lib_ok (after (invoke Get lib_down (set_url ''http://unreachable.test/'' fresh))) =
       invoke Get lib_ok (after (invoke Get lib_ok (set_url ''http://unreachable.test/'' fresh)))"
proof -
  have r: "result (invoke Get lib_down (set_url ''http://unreachable.test/'' fresh)) =
     Inl (runtime_error ''curl_easy_perform: Failed to connect'')"
    by code_simp
  from failed_verb_keeps_configuration [of Get lib_down "set_url ''http://unreachable.test/'' fresh"
      "runtime_error ''curl_easy_perform: Failed to connect''" Get lib_ok lib_ok] r
  show ?thesis by blast
qed

text \<open>
  C10 as stated fails for an option that an earlier verb had set: after a \<open>put\<close>, a
  \<open>del\<close> that raises has replaced the method keyword \<open>PUT\<close> by \<open>DELETE\<close>.
\<close>

theorem failed_del_overwrites_custom_request:
  "result (del lib_down (after (put lib_ok fresh))) =
     Inl (runtime_error ''curl_easy_perform: Failed to connect'')
   \<and> o_customrequest (easy_m (after (put lib_ok fresh))) = Some ''PUT''
   \<and> o_customrequest (easy_m (after (del lib_down (after (put lib_ok fresh))))) = Some ''DELETE''"
  by code_simp

end
